theory Spec2Isabelle
  imports Main "HOL-Library.Word"
begin

unbundle bit_operations_syntax

section \<open>Constants of the system and OpenSSL headers\<close>

text \<open>
  \<^verbatim>\<open>lib/stream-ssl.c\<close> uses these names from \<^verbatim>\<open>errno.h\<close>, \<^verbatim>\<open>openssl/ssl.h\<close> and
  \<^verbatim>\<open>openflow/openflow.h\<close>; the values are those of Linux and OpenSSL.
\<close>

definition EIO :: int where "EIO = 5"
definition EAGAIN :: int where "EAGAIN = 11"
definition EPIPE :: int where "EPIPE = 32"
definition EPROTO :: int where "EPROTO = 71"
definition ENOPROTOOPT :: int where "ENOPROTOOPT = 92"
definition ENOENT :: int where "ENOENT = 2"

definition SSL_NOTHING :: int where "SSL_NOTHING = 1"
definition SSL_WRITING :: int where "SSL_WRITING = 2"
definition SSL_READING :: int where "SSL_READING = 3"

definition SSL_ERROR_NONE :: int where "SSL_ERROR_NONE = 0"
definition SSL_ERROR_SSL :: int where "SSL_ERROR_SSL = 1"
definition SSL_ERROR_WANT_READ :: int where "SSL_ERROR_WANT_READ = 2"
definition SSL_ERROR_WANT_WRITE :: int where "SSL_ERROR_WANT_WRITE = 3"
definition SSL_ERROR_WANT_X509_LOOKUP :: int where "SSL_ERROR_WANT_X509_LOOKUP = 4"
definition SSL_ERROR_SYSCALL :: int where "SSL_ERROR_SYSCALL = 5"
definition SSL_ERROR_ZERO_RETURN :: int where "SSL_ERROR_ZERO_RETURN = 6"
definition SSL_ERROR_WANT_CONNECT :: int where "SSL_ERROR_WANT_CONNECT = 7"
definition SSL_ERROR_WANT_ACCEPT :: int where "SSL_ERROR_WANT_ACCEPT = 8"

definition SSL_VERIFY_NONE :: int where "SSL_VERIFY_NONE = 0"
definition SSL_VERIFY_PEER :: int where "SSL_VERIFY_PEER = 1"
definition SSL_VERIFY_FAIL_IF_NO_PEER_CERT :: int where "SSL_VERIFY_FAIL_IF_NO_PEER_CERT = 2"

definition OFP_SSL_PORT :: nat where "OFP_SSL_PORT = 6633"

lemmas errno_defs = EIO_def EAGAIN_def EPIPE_def EPROTO_def ENOPROTOOPT_def ENOENT_def

lemmas want_defs = SSL_NOTHING_def SSL_WRITING_def SSL_READING_def

lemmas ssl_error_defs = SSL_ERROR_NONE_def SSL_ERROR_SSL_def SSL_ERROR_WANT_READ_def
  SSL_ERROR_WANT_WRITE_def SSL_ERROR_WANT_X509_LOOKUP_def SSL_ERROR_SYSCALL_def
  SSL_ERROR_ZERO_RETURN_def SSL_ERROR_WANT_CONNECT_def SSL_ERROR_WANT_ACCEPT_def

lemmas verify_defs = SSL_VERIFY_NONE_def SSL_VERIFY_PEER_def SSL_VERIFY_FAIL_IF_NO_PEER_CERT_def

section \<open>Data\<close>

type_synonym byte = "8 word"

text \<open>A certificate (\<^verbatim>\<open>X509 *\<close>) is identified by its encoding.\<close>

type_synonym X509 = string

datatype ssl_state = STATE_TCP_CONNECTING | STATE_SSL_CONNECTING

datatype session_type = CLIENT | SERVER

text \<open>
  The ways the process stops instead of returning: \<^verbatim>\<open>assert\<close> (in this file and in
  \<^verbatim>\<open>ofpbuf_pull\<close>), \<^verbatim>\<open>out_of_memory()\<close>, and the dereference of a null or freed \<^verbatim>\<open>txbuf\<close>.
\<close>

datatype fatal = Assertion_failed | Out_of_memory | Bad_pointer

text \<open>
  What one call into the TLS library leaves behind for the caller: its return value, what
  \<^verbatim>\<open>SSL_get_error(ssl, ret)\<close>, \<^verbatim>\<open>ERR_get_error()\<close> (an \<^verbatim>\<open>unsigned long\<close>) and \<^verbatim>\<open>errno\<close> read
  afterwards, and the bytes an \<^verbatim>\<open>SSL_read\<close> stored in the caller's buffer.
\<close>

record io_result =
  io_ret :: int
  io_error :: int
  io_queued :: int
  io_errno :: int
  io_data :: "byte list"

text \<open>
  The TLS library is a collaborator of the module, not part of it: it is a parameter, a
  deterministic machine over an opaque session state \<open>'s\<close>. Every theorem holds for every
  such library. The \<^verbatim>\<open>int\<close> argument of \<open>SSL_read\<close> and \<open>SSL_write\<close> is the length as the C
  call passes it (a \<^verbatim>\<open>size_t\<close> converted to \<^verbatim>\<open>int\<close>).
\<close>

record 's openssl =
  SSL_get_state :: "'s \<Rightarrow> int"
  SSL_read :: "'s \<Rightarrow> int \<Rightarrow> io_result \<times> 's"
  SSL_write :: "'s \<Rightarrow> byte list \<Rightarrow> int \<Rightarrow> io_result \<times> 's"
  SSL_connect :: "'s \<Rightarrow> io_result \<times> 's"
  SSL_accept :: "'s \<Rightarrow> io_result \<times> 's"
  SSL_get_peer_cert_chain :: "'s \<Rightarrow> X509 list option"
  X509_check_issued :: "X509 \<Rightarrow> X509 \<Rightarrow> int"
  X509_dup_ok :: "X509 \<Rightarrow> bool"
  PEM_write_X509_ok :: "X509 \<Rightarrow> bool"
  PEM_read_X509 :: "string \<Rightarrow> (X509 \<times> string) option"
  TLSv1_method_ok :: bool
  SSL_CTX_new_ok :: bool
  SSL_CTX_check_private_key :: bool
  SSL_CTX_add_client_CA_ok :: "X509 \<Rightarrow> bool"
  SSL_CTX_load_verify_locations_ok :: "string \<Rightarrow> bool"
  SSL_CTX_use_PrivateKey_file_ok :: "string \<Rightarrow> bool"
  SSL_CTX_use_certificate_chain_file_ok :: "string \<Rightarrow> bool"
  SSL_new_session :: "'s option"
  SSL_set_fd_ok :: "int \<Rightarrow> bool"

text \<open>The \<^verbatim>\<open>SSL *\<close> of a stream: the verification mode set on it, and the library's state.\<close>

record 's SSL =
  verify_mode :: int
  session :: 's

text \<open>
  \<^verbatim>\<open>struct sockaddr_in\<close>: the port and the address as the octets that lie in memory, which
  is network byte order.
\<close>

text \<open>
  \<^verbatim>\<open>struct ssl_stream\<close>, with the name and the addresses of its \<^verbatim>\<open>struct stream\<close>.
  \<open>txbuf\<close> is a pointer into the heap of \<^verbatim>\<open>ofpbuf\<close>s or null.
  (\<^verbatim>\<open>connect_error\<close> is never read or written by the file and is left out.)
\<close>

record sockaddr_in =
  sin_port :: "byte \<times> byte"
  sin_addr :: "byte \<times> byte \<times> byte \<times> byte"

record 's ssl_stream =
  stream_name :: string
  remote_addr :: sockaddr_in
  local_addr :: sockaddr_in
  state :: ssl_state
  stype :: session_type
  fd :: int
  ssl :: "'s SSL"
  txbuf :: "nat option"
  rx_want :: int
  tx_want :: int

text \<open>
  The heap of \<^verbatim>\<open>ofpbuf\<close>s: cell \<open>p\<close> holds the bytes still in the buffer at address \<open>p\<close>, or
  \<open>None\<close> once the buffer has been deleted. Allocation takes a new cell.
\<close>

type_synonym ofpbuf_heap = "byte list option list"

definition ofpbuf_clone_data :: "ofpbuf_heap \<Rightarrow> byte list \<Rightarrow> nat \<times> ofpbuf_heap" where
  "ofpbuf_clone_data h buffer = (length h, h @ [Some buffer])"

definition ofpbuf_delete :: "ofpbuf_heap \<Rightarrow> nat option \<Rightarrow> ofpbuf_heap" where
  "ofpbuf_delete h b = (case b of None \<Rightarrow> h | Some p \<Rightarrow> if p < length h then h[p := None] else h)"

text \<open>
  \<^verbatim>\<open>ofpbuf_pull(b, size)\<close> takes \<open>size\<close> bytes off the front of the buffer. The function
  lives in \<^verbatim>\<open>lib/ofpbuf.c\<close>, where it first asserts that the buffer holds at least \<open>size\<close>
  bytes; that assertion is the test that precedes the call in \<open>ssl_do_tx_attempt\<close>, so
  the definition here is only ever applied within the buffer.
\<close>

definition ofpbuf_pull :: "ofpbuf_heap \<Rightarrow> nat \<Rightarrow> nat \<Rightarrow> ofpbuf_heap" where
  "ofpbuf_pull h p n = (if p < length h then h[p := map_option (drop n) (h ! p)] else h)"

definition txbuf_data :: "ofpbuf_heap \<Rightarrow> 's ssl_stream \<Rightarrow> byte list option" where
  "txbuf_data h sslv =
     (case txbuf sslv of None \<Rightarrow> None | Some p \<Rightarrow> if p < length h then h ! p else None)"

definition txbuf_size :: "ofpbuf_heap \<Rightarrow> 's ssl_stream \<Rightarrow> nat" where
  "txbuf_size h sslv = (case txbuf_data h sslv of None \<Rightarrow> 0 | Some d \<Rightarrow> length d)"

text \<open>The conversion of a \<^verbatim>\<open>size_t\<close> argument to the \<^verbatim>\<open>int\<close> parameter of the library.\<close>

definition int_of_size_t :: "nat \<Rightarrow> int" where
  "int_of_size_t n = sint (word_of_nat n :: 32 word)"

text \<open>
  \<^verbatim>\<open>int queued_error = ERR_get_error();\<close> keeps the low 32 bits of the \<^verbatim>\<open>unsigned long\<close>.
\<close>

definition int_of_unsigned_long :: "int \<Rightarrow> int" where
  "int_of_unsigned_long q = sint (word_of_int q :: 32 word)"

section \<open>The active stream\<close>

definition ssl_wants_io :: "int \<Rightarrow> bool" where
  "ssl_wants_io ssl_error \<longleftrightarrow>
     ssl_error = SSL_ERROR_WANT_WRITE \<or> ssl_error = SSL_ERROR_WANT_READ"

text \<open>
  \<^verbatim>\<open>interpret_ssl_error(function, ret, error, &want)\<close>: the pair of the value returned and
  the value stored in \<^verbatim>\<open>*want\<close>. Every case of the switch that only logs and breaks ends in
  \<^verbatim>\<open>EIO\<close> with \<^verbatim>\<open>*want\<close> left at \<^verbatim>\<open>SSL_NOTHING\<close>.
\<close>

definition interpret_ssl_error :: "int \<Rightarrow> int \<Rightarrow> io_result \<Rightarrow> int \<times> int" where
  "interpret_ssl_error ret error r =
     (if error = SSL_ERROR_WANT_READ then (EAGAIN, SSL_READING)
      else if error = SSL_ERROR_WANT_WRITE then (EAGAIN, SSL_WRITING)
      else if error = SSL_ERROR_SYSCALL \<and> int_of_unsigned_long (io_queued r) = 0 then
        (if ret < 0 then (io_errno r, SSL_NOTHING) else (EPROTO, SSL_NOTHING))
      else (EIO, SSL_NOTHING))"

text \<open>
  \<^verbatim>\<open>ssl_recv(stream, buffer, n)\<close>: the value returned, the bytes stored in \<^verbatim>\<open>buffer\<close> and the
  stream afterwards, or the failed assertion.
\<close>

definition ssl_recv ::
  "'s openssl \<Rightarrow> 's ssl_stream \<Rightarrow> nat \<Rightarrow> fatal + (int \<times> byte list \<times> 's ssl_stream)" where
  "ssl_recv L sslv n =
     (if \<not> n > 0 then Inl Assertion_failed
      else
        let old_state = SSL_get_state L (session (ssl sslv));
            (r, s') = SSL_read L (session (ssl sslv)) (int_of_size_t n);
            ret = io_ret r;
            sslv = sslv\<lparr>ssl := (ssl sslv)\<lparr>session := s'\<rparr>\<rparr>;
            sslv = (if old_state \<noteq> SSL_get_state L s'
                    then sslv\<lparr>tx_want := SSL_NOTHING\<rparr> else sslv);
            sslv = sslv\<lparr>rx_want := SSL_NOTHING\<rparr>
        in if ret > 0 then Inr (ret, io_data r, sslv)
           else
             let error = io_error r
             in if error = SSL_ERROR_ZERO_RETURN then Inr (0, io_data r, sslv)
                else
                  let (retval, want) = interpret_ssl_error ret error r
                  in Inr (retval, io_data r, sslv\<lparr>rx_want := want\<rparr>))"

definition ssl_clear_txbuf ::
  "ofpbuf_heap \<Rightarrow> 's ssl_stream \<Rightarrow> ofpbuf_heap \<times> 's ssl_stream" where
  "ssl_clear_txbuf h sslv = (ofpbuf_delete h (txbuf sslv), sslv\<lparr>txbuf := None\<rparr>)"

text \<open>
  One pass through the body of the \<^verbatim>\<open>for (;;)\<close> of \<^verbatim>\<open>ssl_do_tx\<close>: \<open>Some v\<close> when the pass
  returns \<open>v\<close>, \<open>None\<close> when the loop goes round again.
\<close>

definition ssl_do_tx_attempt ::
  "'s openssl \<Rightarrow> ofpbuf_heap \<Rightarrow> 's ssl_stream \<Rightarrow>
     (fatal + int) option \<times> ofpbuf_heap \<times> 's ssl_stream" where
  "ssl_do_tx_attempt L h sslv =
     (case txbuf_data h sslv of
        None \<Rightarrow> (Some (Inl Bad_pointer), h, sslv)
      | Some data \<Rightarrow>
          let old_state = SSL_get_state L (session (ssl sslv));
              (r, s') = SSL_write L (session (ssl sslv)) data (int_of_size_t (length data));
              ret = io_ret r;
              sslv = sslv\<lparr>ssl := (ssl sslv)\<lparr>session := s'\<rparr>\<rparr>;
              sslv = (if old_state \<noteq> SSL_get_state L s'
                      then sslv\<lparr>rx_want := SSL_NOTHING\<rparr> else sslv);
              sslv = sslv\<lparr>tx_want := SSL_NOTHING\<rparr>
          in if ret > 0 then
               if \<not> length data \<ge> nat ret then (Some (Inl Assertion_failed), h, sslv)
               else
                 let h' = ofpbuf_pull h (the (txbuf sslv)) (nat ret)
                 in if txbuf_size h' sslv = 0 then (Some (Inr 0), h', sslv)
                    else (None, h', sslv)
             else
               let ssl_error = io_error r
               in if ssl_error = SSL_ERROR_ZERO_RETURN then (Some (Inr EPIPE), h, sslv)
                  else
                    let (retval, want) = interpret_ssl_error ret ssl_error r
                    in (Some (Inr retval), h, sslv\<lparr>tx_want := want\<rparr>))"

lemma ssl_do_tx_attempt_decreases:
  assumes "ssl_do_tx_attempt L h sslv = (None, h', sslv')"
  shows "txbuf_size h' sslv' < txbuf_size h sslv"
proof (cases "txbuf_data h sslv")
  case None
  with assms show ?thesis by (simp add: ssl_do_tx_attempt_def)
next
  case (Some data)
  obtain p where p: "txbuf sslv = Some p" "p < length h" "h ! p = Some data"
    using Some by (auto simp: txbuf_data_def split: option.splits if_splits)
  obtain r s' where rs: "SSL_write L (session (ssl sslv)) data (int_of_size_t (length data)) = (r, s')"
    by (cases "SSL_write L (session (ssl sslv)) data (int_of_size_t (length data))")
  from assms Some rs p have pos: "io_ret r > 0"
    by (auto simp: ssl_do_tx_attempt_def Let_def split: if_splits prod.splits)
  from assms Some rs p pos have h': "h' = ofpbuf_pull h p (nat (io_ret r))" and tx: "txbuf sslv' = Some p"
    by (auto simp: ssl_do_tx_attempt_def Let_def split: if_splits prod.splits)
  from assms Some rs p pos have nz: "txbuf_size h' sslv' \<noteq> 0"
    by (auto simp: ssl_do_tx_attempt_def Let_def split: if_splits prod.splits)
  have "txbuf_size h' sslv' = length data - nat (io_ret r)"
    using p h' tx by (simp add: txbuf_size_def txbuf_data_def ofpbuf_pull_def)
  moreover have "txbuf_size h sslv = length data"
    using Some by (simp add: txbuf_size_def)
  ultimately show ?thesis using nz pos by simp
qed

text \<open>
  \<^verbatim>\<open>ssl_do_tx(stream)\<close>: the loop ends because every pass that goes round again has taken
  at least one byte off a buffer that is still not empty.
\<close>

function ssl_do_tx ::
  "'s openssl \<Rightarrow> ofpbuf_heap \<Rightarrow> 's ssl_stream \<Rightarrow> (fatal + int) \<times> ofpbuf_heap \<times> 's ssl_stream" where
  "ssl_do_tx L h sslv =
     (case ssl_do_tx_attempt L h sslv of
        (Some v, h', sslv') \<Rightarrow> (v, h', sslv')
      | (None, h', sslv') \<Rightarrow> ssl_do_tx L h' sslv')"
  by pat_completeness auto
termination
  by (relation "measure (\<lambda>(L, h, sslv). txbuf_size h sslv)")
     (auto dest: ssl_do_tx_attempt_decreases [OF sym])

declare ssl_do_tx.simps [simp del]

text \<open>
  \<^verbatim>\<open>ssl_send(stream, buffer, n)\<close>, \<open>buffer\<close> being the \<open>n\<close> bytes of the caller.
\<close>

definition ssl_send ::
  "'s openssl \<Rightarrow> ofpbuf_heap \<Rightarrow> 's ssl_stream \<Rightarrow> byte list \<Rightarrow>
     (fatal + int) \<times> ofpbuf_heap \<times> 's ssl_stream" where
  "ssl_send L h sslv buffer =
     (if txbuf sslv \<noteq> None then (Inr EAGAIN, h, sslv)
      else
        let (p, h) = ofpbuf_clone_data h buffer;
            sslv = sslv\<lparr>txbuf := Some p\<rparr>;
            (error, h, sslv) = ssl_do_tx L h sslv
        in case error of
             Inl f \<Rightarrow> (Inl f, h, sslv)
           | Inr e \<Rightarrow>
               if e = 0 then
                 let (h, sslv) = ssl_clear_txbuf h sslv in (Inr 0, h, sslv)
               else if e = EAGAIN then (Inr 0, h, sslv)
               else (Inr e, h, sslv\<lparr>txbuf := None\<rparr>))"

text \<open>\<^verbatim>\<open>ssl_run(stream)\<close>; the function returns nothing, so only a fatal stop is reported.\<close>

definition ssl_run ::
  "'s openssl \<Rightarrow> ofpbuf_heap \<Rightarrow> 's ssl_stream \<Rightarrow> fatal option \<times> ofpbuf_heap \<times> 's ssl_stream" where
  "ssl_run L h sslv =
     (if txbuf sslv \<noteq> None then
        let (error, h', sslv') = ssl_do_tx L h sslv
        in case error of
             Inl f \<Rightarrow> (Some f, h', sslv')
           | Inr e \<Rightarrow>
               if e \<noteq> EAGAIN then
                 let (h'', sslv'') = ssl_clear_txbuf h' sslv' in (None, h'', sslv'')
               else (None, h', sslv')
      else (None, h, sslv))"

section \<open>Process-wide configuration\<close>

text \<open>
  The \<^verbatim>\<open>SSL_CTX\<close> created by \<^verbatim>\<open>do_ssl_init\<close>: the default verification mode and what the
  setters and the bootstrap load into it.
\<close>

record SSL_CTX =
  ctx_verify_mode :: int
  client_CA :: "X509 list"
  verify_locations :: "string list"
  extra_chain_certs :: "X509 list"
  private_key_file :: "string option"
  certificate_chain_file :: "string option"

text \<open>
  The file's static variables. \<open>init_status\<close> is the \<^verbatim>\<open>static int\<close> of \<^verbatim>\<open>ssl_init\<close>,
  initially \<open>-1\<close>; \<open>ctx\<close> and \<open>ca_cert_file\<close> are null until set.
\<close>

record globals =
  init_status :: int
  ctx :: "SSL_CTX option"
  has_private_key :: bool
  has_certificate :: bool
  has_ca_cert :: bool
  bootstrap_ca_cert :: bool
  ca_cert_file :: "string option"

definition initial_globals :: globals where
  "initial_globals =
     \<lparr>init_status = - 1, ctx = None, has_private_key = False, has_certificate = False,
      has_ca_cert = False, bootstrap_ca_cert = False, ca_cert_file = None\<rparr>"

text \<open>
  The operating system, a parameter like the TLS library. A call that can fail answers
  with the \<^verbatim>\<open>errno\<close> it sets: \<open>Inl e\<close> or \<open>Some e\<close> is the failure with \<^verbatim>\<open>errno = e\<close>.
  \<open>os_fopen_r\<close> gives the contents of the file opened for reading, \<open>os_bound\<close> the address
  a socket is bound to (what \<^verbatim>\<open>getsockname\<close> reports), \<open>inet_open_passive\<close> the descriptor
  of the new listening socket or a negative \<^verbatim>\<open>errno\<close>.
\<close>

record os =
  check_connection_completion :: "int \<Rightarrow> int"
  os_open_excl :: "string option \<Rightarrow> int + int"
  os_fdopen :: "int \<Rightarrow> int option"
  os_fclose :: "int \<Rightarrow> int option"
  os_stat :: "string \<Rightarrow> int option"
  os_fopen_r :: "string \<Rightarrow> int + string"
  os_bound :: "int \<Rightarrow> sockaddr_in option"
  os_setsockopt_nodelay :: "int \<Rightarrow> int option"
  inet_open_passive :: "string \<Rightarrow> nat \<Rightarrow> int"

text \<open>
  POSIX: a call that fails sets \<^verbatim>\<open>errno\<close> to a positive error number. This is the only
  thing assumed of the operating system, and only where a theorem says so.
\<close>

definition posix_errnos :: "os \<Rightarrow> bool" where
  "posix_errnos os \<longleftrightarrow>
     (\<forall>p e. os_open_excl os p = Inl e \<longrightarrow> 0 < e) \<and>
     (\<forall>d e. os_fdopen os d = Some e \<longrightarrow> 0 < e) \<and>
     (\<forall>d e. os_fclose os d = Some e \<longrightarrow> 0 < e)"

text \<open>What a call does to the world outside the process, in the order it happens.\<close>

datatype effect =
    Created "string option"
  | Wrote_PEM "string option" X509
  | Unlinked "string option"
  | Shut_down int
  | Closed int

definition do_ssl_init :: "'s openssl \<Rightarrow> globals \<Rightarrow> int \<times> globals" where
  "do_ssl_init L g =
     (if \<not> TLSv1_method_ok L then (ENOPROTOOPT, g)
      else if \<not> SSL_CTX_new_ok L then (ENOPROTOOPT, g)
      else (0, g\<lparr>ctx := Some \<lparr>ctx_verify_mode = SSL_VERIFY_PEER OR SSL_VERIFY_FAIL_IF_NO_PEER_CERT,
                               client_CA = [], verify_locations = [], extra_chain_certs = [],
                               private_key_file = None, certificate_chain_file = None\<rparr>\<rparr>))"

text \<open>
  \<^verbatim>\<open>ssl_init()\<close>. Its \<^verbatim>\<open>assert(init_status >= 0)\<close> is the \<open>Inl\<close> branch; \<open>do_ssl_init\<close> returns
  0 or \<^verbatim>\<open>ENOPROTOOPT\<close>, so the branch is never taken (lemma \<open>ssl_init_returns\<close>).
\<close>

definition ssl_init :: "'s openssl \<Rightarrow> globals \<Rightarrow> fatal + (int \<times> globals)" where
  "ssl_init L g =
     (if init_status g < 0 then
        let (st, g) = do_ssl_init L g;
            g = g\<lparr>init_status := st\<rparr>
        in if \<not> init_status g \<ge> 0 then Inl Assertion_failed else Inr (init_status g, g)
      else Inr (init_status g, g))"

text \<open>\<^verbatim>\<open>stream_ssl_is_configured()\<close>.\<close>

definition stream_ssl_is_configured :: "globals \<Rightarrow> bool" where
  "stream_ssl_is_configured g \<longleftrightarrow> has_private_key g \<or> has_certificate g \<or> has_ca_cert g"

text \<open>\<^verbatim>\<open>stream_ssl_set_private_key_file\<close> and \<^verbatim>\<open>stream_ssl_set_certificate_file\<close>.\<close>

definition stream_ssl_set_private_key_file ::
  "'s openssl \<Rightarrow> globals \<Rightarrow> string \<Rightarrow> fatal + globals" where
  "stream_ssl_set_private_key_file L g file_name =
     (case ssl_init L g of
        Inl f \<Rightarrow> Inl f
      | Inr (st, g) \<Rightarrow>
          if st \<noteq> 0 then Inr g
          else if \<not> SSL_CTX_use_PrivateKey_file_ok L file_name then Inr g
          else Inr (g\<lparr>ctx := map_option (\<lambda>c. c\<lparr>private_key_file := Some file_name\<rparr>) (ctx g),
                      has_private_key := True\<rparr>))"

definition stream_ssl_set_certificate_file ::
  "'s openssl \<Rightarrow> globals \<Rightarrow> string \<Rightarrow> fatal + globals" where
  "stream_ssl_set_certificate_file L g file_name =
     (case ssl_init L g of
        Inl f \<Rightarrow> Inl f
      | Inr (st, g) \<Rightarrow>
          if st \<noteq> 0 then Inr g
          else if \<not> SSL_CTX_use_certificate_chain_file_ok L file_name then Inr g
          else Inr (g\<lparr>ctx := map_option (\<lambda>c. c\<lparr>certificate_chain_file := Some file_name\<rparr>) (ctx g),
                      has_certificate := True\<rparr>))"

section \<open>The certificate file reader\<close>

text \<open>\<^verbatim>\<open>isspace\<close> in the C locale.\<close>

definition isspace :: "char \<Rightarrow> bool" where
  "isspace c \<longleftrightarrow> c \<in> set [CHR '' '', CHR 0x09, CHR 0x0A, CHR 0x0B, CHR 0x0C, CHR 0x0D]"

text \<open>
  What \<^verbatim>\<open>read_cert_file\<close> hands back: the value returned, \<^verbatim>\<open>*certs\<close> (\<open>None\<close> is the null
  pointer), \<^verbatim>\<open>*n_certs\<close>, and the certificates it passed to \<^verbatim>\<open>X509_free\<close>.
\<close>

record cert_read =
  rc_retval :: int
  rc_certs :: "X509 list option"
  rc_n_certs :: nat
  rc_freed :: "X509 list"

text \<open>
  The \<^verbatim>\<open>for (;;)\<close> of \<^verbatim>\<open>read_cert_file\<close>, on the unread rest of the file and the array
  built so far. \<^verbatim>\<open>PEM_read_X509\<close> takes a certificate off the front of the stream or fails;
  the \<^verbatim>\<open>do ... while (isspace(c))\<close> with its \<^verbatim>\<open>ungetc\<close> drops the white space that follows.
  Nothing in the code bounds the loop, so it is a partial function: \<open>None\<close> is a run that
  never returns.
\<close>

partial_function (option) read_cert_loop ::
  "(string \<Rightarrow> (X509 \<times> string) option) \<Rightarrow> string \<Rightarrow> X509 list \<Rightarrow> cert_read option" where
  "read_cert_loop pem file certs =
     (case pem file of
        None \<Rightarrow> Some \<lparr>rc_retval = EIO, rc_certs = None, rc_n_certs = 0, rc_freed = certs\<rparr>
      | Some (certificate, rest) \<Rightarrow>
          let certs = certs @ [certificate];
              rest = dropWhile isspace rest
          in if rest = [] then
               Some \<lparr>rc_retval = 0, rc_certs = Some certs, rc_n_certs = length certs,
                     rc_freed = []\<rparr>
             else read_cert_loop pem rest certs)"

definition read_cert_file :: "'s openssl \<Rightarrow> os \<Rightarrow> string \<Rightarrow> cert_read option" where
  "read_cert_file L os file_name =
     (case os_fopen_r os file_name of
        Inl errno \<Rightarrow> Some \<lparr>rc_retval = errno, rc_certs = None, rc_n_certs = 0, rc_freed = []\<rparr>
      | Inr file \<Rightarrow> read_cert_loop (PEM_read_X509 L) file [])"

text \<open>
  The reader's contract in the words of the specification: the file parses into the
  certificates \<open>cs\<close>, taken in file order with white space skipped between them, and \<open>ok\<close>
  tells whether the end of the file was reached or a parse failed after \<open>cs\<close>.
\<close>

inductive file_parses ::
  "(string \<Rightarrow> (X509 \<times> string) option) \<Rightarrow> string \<Rightarrow> X509 list \<Rightarrow> bool \<Rightarrow> bool" where
  parse_error: "pem file = None \<Longrightarrow> file_parses pem file [] False"
| last_cert: "pem file = Some (c, rest) \<Longrightarrow> dropWhile isspace rest = [] \<Longrightarrow>
     file_parses pem file [c] True"
| next_cert: "pem file = Some (c, rest) \<Longrightarrow> dropWhile isspace rest \<noteq> [] \<Longrightarrow>
     file_parses pem (dropWhile isspace rest) cs ok \<Longrightarrow> file_parses pem file (c # cs) ok"

text \<open>A parser that succeeds has read at least one character.\<close>

definition pem_consumes :: "(string \<Rightarrow> (X509 \<times> string) option) \<Rightarrow> bool" where
  "pem_consumes pem \<longleftrightarrow> (\<forall>file c rest. pem file = Some (c, rest) \<longrightarrow> length rest < length file)"

section \<open>The trusted CA setter\<close>

definition add_client_CAs :: "'s openssl \<Rightarrow> X509 list \<Rightarrow> SSL_CTX \<Rightarrow> SSL_CTX" where
  "add_client_CAs L certs c =
     c\<lparr>client_CA := client_CA c @ filter (SSL_CTX_add_client_CA_ok L) certs\<rparr>"

text \<open>
  \<^verbatim>\<open>stream_ssl_set_ca_cert_file(file_name, bootstrap)\<close>. \<open>None\<close> is a run whose read of the
  file never returns.
\<close>

definition stream_ssl_set_ca_cert_file ::
  "'s openssl \<Rightarrow> os \<Rightarrow> globals \<Rightarrow> string \<Rightarrow> bool \<Rightarrow> (fatal + globals) option" where
  "stream_ssl_set_ca_cert_file L os g file_name bootstrap =
     (case ssl_init L g of
        Inl f \<Rightarrow> Some (Inl f)
      | Inr (st, g) \<Rightarrow>
          if st \<noteq> 0 then Some (Inr g)
          else if bootstrap \<and> os_stat os file_name = Some ENOENT then
            Some (Inr (g\<lparr>bootstrap_ca_cert := True, ca_cert_file := Some file_name\<rparr>))
          else
            (case read_cert_file L os file_name of
               None \<Rightarrow> None
             | Some rc \<Rightarrow>
                 if rc_retval rc \<noteq> 0 then Some (Inr g)
                 else
                   let g = g\<lparr>ctx := map_option (add_client_CAs L (take (rc_n_certs rc)
                                (case rc_certs rc of None \<Rightarrow> [] | Some cs \<Rightarrow> cs))) (ctx g)\<rparr>
                   in if \<not> SSL_CTX_load_verify_locations_ok L file_name then Some (Inr g)
                      else
                        Some (Inr (g\<lparr>ctx := map_option
                                       (\<lambda>c. c\<lparr>verify_locations := verify_locations c @ [file_name]\<rparr>)
                                       (ctx g),
                                     has_ca_cert := True\<rparr>))))"

section \<open>Creating a stream\<close>

text \<open>
  The block "Check for all the needful configuration" at the head of \<^verbatim>\<open>new_ssl_stream\<close>:
  the value of \<^verbatim>\<open>retval\<close> after its four tests.
\<close>

definition needful_configuration :: "'s openssl \<Rightarrow> globals \<Rightarrow> int" where
  "needful_configuration L g =
     (let retval = 0;
          retval = (if \<not> has_private_key g then ENOPROTOOPT else retval);
          retval = (if \<not> has_certificate g then ENOPROTOOPT else retval);
          retval = (if \<not> has_ca_cert g \<and> \<not> bootstrap_ca_cert g then ENOPROTOOPT else retval);
          retval = (if \<not> SSL_CTX_check_private_key L then ENOPROTOOPT else retval)
      in retval)"

definition zero_sockaddr :: sockaddr_in where
  "zero_sockaddr = \<lparr>sin_port = (0, 0), sin_addr = (0, 0, 0, 0)\<rparr>"

text \<open>
  \<^verbatim>\<open>new_ssl_stream(name, fd, type, state, remote, streamp)\<close>: the value returned, the stream
  stored in \<^verbatim>\<open>*streamp\<close> if any, and the effects (the error path closes \<open>fd\<close>). A session made
  by \<^verbatim>\<open>SSL_new(ctx)\<close> starts with the verification mode of the context.
\<close>

definition new_ssl_stream ::
  "'s openssl \<Rightarrow> os \<Rightarrow> globals \<Rightarrow> string \<Rightarrow> int \<Rightarrow> session_type \<Rightarrow> ssl_state \<Rightarrow> sockaddr_in \<Rightarrow>
     int \<times> 's ssl_stream option \<times> effect list" where
  "new_ssl_stream L os g name0 fd0 type0 state0 remote =
     (let retval = needful_configuration L g
      in if retval \<noteq> 0 then (retval, None, [Closed fd0])
         else
           let local0 = (case os_bound os fd0 of None \<Rightarrow> zero_sockaddr | Some a \<Rightarrow> a)
           in case os_setsockopt_nodelay os fd0 of
                Some errno \<Rightarrow> (errno, None, [Closed fd0])
              | None \<Rightarrow>
                  (case (ctx g, SSL_new_session L) of
                     (Some c, Some s) \<Rightarrow>
                       if \<not> SSL_set_fd_ok L fd0 then (ENOPROTOOPT, None, [Closed fd0])
                       else
                         let mode = (if bootstrap_ca_cert g \<and> type0 = CLIENT
                                     then SSL_VERIFY_NONE else ctx_verify_mode c)
                         in (0,
                             Some \<lparr>stream_name = name0, remote_addr = remote, local_addr = local0,
                                   state = state0, stype = type0, fd = fd0,
                                   ssl = \<lparr>verify_mode = mode, session = s\<rparr>,
                                   txbuf = None, rx_want = SSL_NOTHING, tx_want = SSL_NOTHING\<rparr>,
                             [])
                   | _ \<Rightarrow> (ENOPROTOOPT, None, [Closed fd0])))"

section \<open>The CA bootstrap and the handshake\<close>

text \<open>
  \<^verbatim>\<open>do_ca_cert_bootstrap(stream)\<close>: the value returned (or the stop in \<^verbatim>\<open>out_of_memory()\<close>),
  the static variables afterwards and the effects on the file system.
\<close>

definition do_ca_cert_bootstrap ::
  "'s openssl \<Rightarrow> os \<Rightarrow> globals \<Rightarrow> 's ssl_stream \<Rightarrow> (fatal + int) \<times> globals \<times> effect list" where
  "do_ca_cert_bootstrap L os g sslv =
     (case SSL_get_peer_cert_chain L (session (ssl sslv)) of
        None \<Rightarrow> (Inr EPROTO, g, [])
      | Some chain \<Rightarrow>
          if length chain = 0 then (Inr EPROTO, g, [])
          else
            let ca_cert = chain ! (length chain - 1);
                path = ca_cert_file g
            in if X509_check_issued L ca_cert ca_cert \<noteq> 0 then (Inr EPROTO, g, [])
               else
                 (case os_open_excl os path of
                    Inl errno \<Rightarrow> (Inr errno, g, [])
                  | Inr fd0 \<Rightarrow>
                      (case os_fdopen os fd0 of
                         Some errno \<Rightarrow> (Inr errno, g, [Created path, Unlinked path])
                       | None \<Rightarrow>
                           if \<not> PEM_write_X509_ok L ca_cert then
                             (Inr EIO, g, [Created path, Unlinked path])
                           else
                             (case os_fclose os fd0 of
                                Some errno \<Rightarrow>
                                  (Inr errno, g,
                                   [Created path, Wrote_PEM path ca_cert, Unlinked path])
                              | None \<Rightarrow>
                                  let g = g\<lparr>bootstrap_ca_cert := False, has_ca_cert := True\<rparr>;
                                      g = g\<lparr>ctx := map_option (add_client_CAs L [ca_cert]) (ctx g)\<rparr>;
                                      eff = [Created path, Wrote_PEM path ca_cert]
                                  in if \<not> X509_dup_ok L ca_cert then (Inl Out_of_memory, g, eff)
                                     else
                                       (case path of
                                          Some file_name \<Rightarrow>
                                            if SSL_CTX_load_verify_locations_ok L file_name then
                                              (Inr EPROTO,
                                               g\<lparr>ctx := map_option
                                                    (\<lambda>c. c\<lparr>verify_locations :=
                                                             verify_locations c @ [file_name]\<rparr>)
                                                    (ctx g)\<rparr>,
                                               eff)
                                            else (Inr EPROTO, g, eff)
                                        | None \<Rightarrow> (Inr EPROTO, g, eff))))))"


text \<open>The handshake call of \<^verbatim>\<open>ssl_connect\<close>: \<^verbatim>\<open>SSL_connect\<close> for a client, else \<^verbatim>\<open>SSL_accept\<close>.\<close>

definition handshake :: "'s openssl \<Rightarrow> 's ssl_stream \<Rightarrow> io_result \<times> 's" where
  "handshake L sslv =
     (if stype sslv = CLIENT then SSL_connect L (session (ssl sslv))
      else SSL_accept L (session (ssl sslv)))"

text \<open>
  \<^verbatim>\<open>ssl_connect(stream)\<close>. The generic stream layer takes the stream as connected when this
  returns 0; the file has no state of its own for an established connection.
\<close>

definition ssl_connect ::
  "'s openssl \<Rightarrow> os \<Rightarrow> globals \<Rightarrow> 's ssl_stream \<Rightarrow>
     (fatal + int) \<times> globals \<times> 's ssl_stream \<times> effect list" where
  "ssl_connect L os g sslv =
     (let retval = (case state sslv of
                      STATE_TCP_CONNECTING \<Rightarrow> check_connection_completion os (fd sslv)
                    | STATE_SSL_CONNECTING \<Rightarrow> 0)
      in if retval \<noteq> 0 then (Inr retval, g, sslv, [])
         else
           let sslv = sslv\<lparr>state := STATE_SSL_CONNECTING\<rparr>;
               (r, s') = handshake L sslv;
               retval = io_ret r;
               sslv = sslv\<lparr>ssl := (ssl sslv)\<lparr>session := s'\<rparr>\<rparr>
           in if retval \<noteq> 1 then
                let error = io_error r
                in if retval < 0 \<and> ssl_wants_io error then (Inr EAGAIN, g, sslv, [])
                   else (Inr EPROTO, g, sslv, [Shut_down (fd sslv)])
              else if bootstrap_ca_cert g then
                let (v, g', eff) = do_ca_cert_bootstrap L os g sslv in (v, g', sslv, eff)
              else if verify_mode (ssl sslv) AND (SSL_VERIFY_NONE OR SSL_VERIFY_PEER)
                      \<noteq> SSL_VERIFY_PEER then
                (Inr EPROTO, g, sslv, [])
              else (Inr 0, g, sslv, []))"

section \<open>The passive listener\<close>

record pssl_pstream =
  pstream_name :: string
  pssl_fd :: int

text \<open>Decimal digits, as \<^verbatim>\<open>"%"PRIu16\<close> and \<^verbatim>\<open>"%"PRIu8\<close> print them.\<close>

fun decimal :: "nat \<Rightarrow> string" where
  "decimal n =
     (if n < 10 then [''0123456789'' ! n]
      else decimal (n div 10) @ [''0123456789'' ! (n mod 10)])"

declare decimal.simps [simp del]

definition ntohs :: "byte \<times> byte \<Rightarrow> nat" where
  "ntohs p = unat (fst p) * 256 + unat (snd p)"

text \<open>\<^verbatim>\<open>IP_FMT\<close> with \<^verbatim>\<open>IP_ARGS\<close>: the four octets in memory order, dotted.\<close>

definition ip_fmt :: "byte \<times> byte \<times> byte \<times> byte \<Rightarrow> string" where
  "ip_fmt a =
     (case a of (a0, a1, a2, a3) \<Rightarrow>
        decimal (unat a0) @ ''.'' @ decimal (unat a1) @ ''.'' @ decimal (unat a2) @ ''.''
        @ decimal (unat a3))"

text \<open>
  \<^verbatim>\<open>pssl_open(name, suffix, pstreamp)\<close>. The local \<^verbatim>\<open>struct sockaddr_in sin\<close> is declared
  without an initialiser and \<^verbatim>\<open>inet_open_passive\<close> is passed \<^verbatim>\<open>NULL\<close> where it would store
  the bound address, so what \<^verbatim>\<open>sin\<close> holds when the name is printed is whatever the stack
  held: the parameter \<open>sin\<close>.
\<close>

definition pssl_open ::
  "'s openssl \<Rightarrow> os \<Rightarrow> globals \<Rightarrow> string \<Rightarrow> sockaddr_in \<Rightarrow>
     fatal + (int \<times> globals \<times> pssl_pstream option)" where
  "pssl_open L os g suffix sin =
     (case ssl_init L g of
        Inl f \<Rightarrow> Inl f
      | Inr (retval, g) \<Rightarrow>
          if retval \<noteq> 0 then Inr (retval, g, None)
          else
            let fd0 = inet_open_passive os suffix OFP_SSL_PORT
            in if fd0 < 0 then Inr (- fd0, g, None)
               else
                 let bound_name = ''pssl:'' @ decimal (ntohs (sin_port sin)) @ '':''
                                  @ ip_fmt (sin_addr sin)
                 in Inr (0, g, Some \<lparr>pstream_name = bound_name, pssl_fd = fd0\<rparr>))"

section \<open>A library and an operating system to run the code on\<close>

text \<open>
  A TLS library that plays back a script: the session state is the current handshake
  state and the list of answers still to give, each with the handshake state it leaves.
  When the script is used up every call wants to read.
\<close>

type_synonym script = "int \<times> (io_result \<times> int) list"

definition would_block :: io_result where
  "would_block =
     \<lparr>io_ret = - 1, io_error = SSL_ERROR_WANT_READ, io_queued = 0, io_errno = EAGAIN,
      io_data = []\<rparr>"

definition closed_by_peer :: io_result where
  "closed_by_peer =
     \<lparr>io_ret = 0, io_error = SSL_ERROR_ZERO_RETURN, io_queued = 0, io_errno = 0, io_data = []\<rparr>"

definition done_io :: "int \<Rightarrow> byte list \<Rightarrow> io_result" where
  "done_io n bytes =
     \<lparr>io_ret = n, io_error = SSL_ERROR_NONE, io_queued = 0, io_errno = 0, io_data = bytes\<rparr>"

definition replay :: "script \<Rightarrow> io_result \<times> script" where
  "replay s = (case snd s of [] \<Rightarrow> (would_block, s) | (r, st) # rest \<Rightarrow> (r, (st, rest)))"

text \<open>
  A stand-in for the PEM parser: a certificate is a run of characters that are not white
  space and does not start with \<open>#\<close>.
\<close>

definition word_pem :: "string \<Rightarrow> (X509 \<times> string) option" where
  "word_pem file =
     (case file of
        [] \<Rightarrow> None
      | c # cs \<Rightarrow>
          if isspace c \<or> c = CHR ''#'' then None
          else Some (c # takeWhile (\<lambda>x. \<not> isspace x) cs, dropWhile (\<lambda>x. \<not> isspace x) cs))"

definition replay_lib :: "script openssl" where
  "replay_lib =
     \<lparr>SSL_get_state = fst,
      SSL_read = (\<lambda>s n. replay s),
      SSL_write = (\<lambda>s d n. replay s),
      SSL_connect = replay,
      SSL_accept = replay,
      SSL_get_peer_cert_chain = (\<lambda>s. Some [''leaf'', ''root'']),
      X509_check_issued = (\<lambda>a b. if a = ''root'' \<and> b = ''root'' then 0 else 29),
      X509_dup_ok = (\<lambda>c. True),
      PEM_write_X509_ok = (\<lambda>c. True),
      PEM_read_X509 = word_pem,
      TLSv1_method_ok = True,
      SSL_CTX_new_ok = True,
      SSL_CTX_check_private_key = True,
      SSL_CTX_add_client_CA_ok = (\<lambda>c. True),
      SSL_CTX_load_verify_locations_ok = (\<lambda>f. True),
      SSL_CTX_use_PrivateKey_file_ok = (\<lambda>f. True),
      SSL_CTX_use_certificate_chain_file_ok = (\<lambda>f. True),
      SSL_new_session = Some (0, []),
      SSL_set_fd_ok = (\<lambda>d. True)\<rparr>"

text \<open>
  An operating system in which \<open>cacert.pem\<close> holds two certificates and \<open>broken.pem\<close> one
  certificate and then something that does not parse, no other file exists, every other
  call succeeds, and the listening socket is descriptor 5, bound to 127.0.0.1 port 6633.
\<close>

definition demo_os :: os where
  "demo_os =
     \<lparr>check_connection_completion = (\<lambda>d. 0),
      os_open_excl = (\<lambda>p. Inr 4),
      os_fdopen = (\<lambda>d. None),
      os_fclose = (\<lambda>d. None),
      os_stat = (\<lambda>f. if f = ''cacert.pem'' \<or> f = ''broken.pem'' then None else Some ENOENT),
      os_fopen_r = (\<lambda>f. if f = ''cacert.pem'' then Inr ''root1 root2''
                         else if f = ''broken.pem'' then Inr ''root1 #''
                         else Inl ENOENT),
      os_bound = (\<lambda>d. Some \<lparr>sin_port = (25, 233), sin_addr = (127, 0, 0, 1)\<rparr>),
      os_setsockopt_nodelay = (\<lambda>d. None),
      inet_open_passive = (\<lambda>suffix default_port. 5)\<rparr>"

definition demo_stream :: "script \<Rightarrow> script ssl_stream" where
  "demo_stream s =
     \<lparr>stream_name = ''ssl:127.0.0.1'', remote_addr = zero_sockaddr, local_addr = zero_sockaddr,
      state = STATE_SSL_CONNECTING, stype = CLIENT, fd = 3,
      ssl = \<lparr>verify_mode = SSL_VERIFY_PEER OR SSL_VERIFY_FAIL_IF_NO_PEER_CERT, session = s\<rparr>,
      txbuf = None, rx_want = SSL_NOTHING, tx_want = SSL_NOTHING\<rparr>"

text \<open>
  A client stream made while the bootstrap was armed (\<^verbatim>\<open>SSL_VERIFY_NONE\<close>) whose handshake is
  about to complete; a newly made context; the static variables after the CA setter has
  armed the bootstrap for \<open>new-ca.pem\<close>, and after the bootstrap has then stored the
  peer's root there; and the static variables after \<open>cacert.pem\<close> has been loaded as the
  CA file.
\<close>

definition relaxed_stream :: "script ssl_stream" where
  "relaxed_stream =
     (demo_stream (0, [(done_io 1 [], 3)]))
       \<lparr>ssl := \<lparr>verify_mode = SSL_VERIFY_NONE, session = (0, [(done_io 1 [], 3)])\<rparr>\<rparr>"

definition fresh_ctx :: SSL_CTX where
  "fresh_ctx =
     \<lparr>ctx_verify_mode = SSL_VERIFY_PEER OR SSL_VERIFY_FAIL_IF_NO_PEER_CERT, client_CA = [],
      verify_locations = [], extra_chain_certs = [], private_key_file = None,
      certificate_chain_file = None\<rparr>"

definition armed_globals :: globals where
  "armed_globals =
     \<lparr>init_status = 0, ctx = Some fresh_ctx, has_private_key = False, has_certificate = False,
      has_ca_cert = False, bootstrap_ca_cert = True, ca_cert_file = Some ''new-ca.pem''\<rparr>"

definition bootstrapped_globals :: globals where
  "bootstrapped_globals =
     \<lparr>init_status = 0,
      ctx = Some (fresh_ctx\<lparr>client_CA := [''root''], verify_locations := [''new-ca.pem'']\<rparr>),
      has_private_key = False, has_certificate = False, has_ca_cert = True,
      bootstrap_ca_cert = False, ca_cert_file = Some ''new-ca.pem''\<rparr>"

definition ca_file_globals :: globals where
  "ca_file_globals =
     \<lparr>init_status = 0,
      ctx = Some (fresh_ctx\<lparr>client_CA := [''root1'', ''root2''],
                            verify_locations := [''cacert.pem'']\<rparr>),
      has_private_key = False, has_certificate = False, has_ca_cert = True,
      bootstrap_ca_cert = False, ca_cert_file = None\<rparr>"

lemmas demo_defs = replay_lib_def replay_def demo_stream_def would_block_def closed_by_peer_def
  done_io_def demo_os_def

section \<open>Readiness tracking\<close>

text \<open>
  Claim C1. A recv on an established stream (\<open>n > 0\<close>) always returns and sets \<open>rx_want\<close>
  whatever it was before: to the direction the library's error asks for, else to nothing.
  It sets \<open>tx_want\<close> to nothing exactly when the session state read before \<^verbatim>\<open>SSL_read\<close>
  differs from the one read after it, and leaves it as it was otherwise. Each pass of the
  loop of \<open>ssl_do_tx\<close> does the same with the two members exchanged, around \<^verbatim>\<open>SSL_write\<close>.
\<close>

theorem want_tracking:
  "(0 < n \<longrightarrow>
     (\<exists>ret buf sslv'.
        ssl_recv L sslv n = Inr (ret, buf, sslv') \<and>
        (let (r, s') = SSL_read L (session (ssl sslv)) (int_of_size_t n)
         in rx_want sslv' =
              (if 0 < io_ret r then SSL_NOTHING
               else if io_error r = SSL_ERROR_WANT_READ then SSL_READING
               else if io_error r = SSL_ERROR_WANT_WRITE then SSL_WRITING
               else SSL_NOTHING) \<and>
            tx_want sslv' =
              (if SSL_get_state L (session (ssl sslv)) \<noteq> SSL_get_state L s'
               then SSL_NOTHING else tx_want sslv)))) \<and>
   (txbuf_data h sslv = Some data \<longrightarrow>
     (\<exists>v h' sslv'.
        ssl_do_tx_attempt L h sslv = (v, h', sslv') \<and>
        (let (r, s') = SSL_write L (session (ssl sslv)) data (int_of_size_t (length data))
         in tx_want sslv' =
              (if 0 < io_ret r then SSL_NOTHING
               else if io_error r = SSL_ERROR_WANT_READ then SSL_READING
               else if io_error r = SSL_ERROR_WANT_WRITE then SSL_WRITING
               else SSL_NOTHING) \<and>
            rx_want sslv' =
              (if SSL_get_state L (session (ssl sslv)) \<noteq> SSL_get_state L s'
               then SSL_NOTHING else rx_want sslv))))"
proof (intro conjI impI)
  assume "0 < n"
  then show "\<exists>ret buf sslv'.
        ssl_recv L sslv n = Inr (ret, buf, sslv') \<and>
        (let (r, s') = SSL_read L (session (ssl sslv)) (int_of_size_t n)
         in rx_want sslv' =
              (if 0 < io_ret r then SSL_NOTHING
               else if io_error r = SSL_ERROR_WANT_READ then SSL_READING
               else if io_error r = SSL_ERROR_WANT_WRITE then SSL_WRITING
               else SSL_NOTHING) \<and>
            tx_want sslv' =
              (if SSL_get_state L (session (ssl sslv)) \<noteq> SSL_get_state L s'
               then SSL_NOTHING else tx_want sslv))"
    by (auto simp: ssl_recv_def Let_def interpret_ssl_error_def ssl_error_defs
             split: prod.splits)
next
  assume "txbuf_data h sslv = Some data"
  then show "\<exists>v h' sslv'.
        ssl_do_tx_attempt L h sslv = (v, h', sslv') \<and>
        (let (r, s') = SSL_write L (session (ssl sslv)) data (int_of_size_t (length data))
         in tx_want sslv' =
              (if 0 < io_ret r then SSL_NOTHING
               else if io_error r = SSL_ERROR_WANT_READ then SSL_READING
               else if io_error r = SSL_ERROR_WANT_WRITE then SSL_WRITING
               else SSL_NOTHING) \<and>
            rx_want sslv' =
              (if SSL_get_state L (session (ssl sslv)) \<noteq> SSL_get_state L s'
               then SSL_NOTHING else rx_want sslv))"
    by (auto simp: ssl_do_tx_attempt_def Let_def interpret_ssl_error_def ssl_error_defs
             split: prod.splits)
qed

text \<open>
  A recv that finds \<open>tx_want\<close> parked on reading, moves the session state from 7 to 8 and
  is told to write; and a write pass that leaves the state at 7 and is told to read, with
  \<open>rx_want\<close> parked on writing.
\<close>

theorem want_tracking_witness:
  "ssl_recv replay_lib
     ((demo_stream (7, [(would_block\<lparr>io_error := SSL_ERROR_WANT_WRITE\<rparr>, 8)]))
        \<lparr>txbuf := Some 0, tx_want := SSL_READING\<rparr>) 4
   = Inr (EAGAIN, [],
          (demo_stream (8, []))\<lparr>txbuf := Some 0, tx_want := SSL_NOTHING, rx_want := SSL_WRITING\<rparr>)
   \<and> ssl_do_tx_attempt replay_lib [Some [72, 73]]
     ((demo_stream (7, [(would_block, 7)]))\<lparr>txbuf := Some 0, rx_want := SSL_WRITING\<rparr>)
   = (Some (Inr EAGAIN), [Some [72, 73]],
      (demo_stream (7, []))\<lparr>txbuf := Some 0, rx_want := SSL_WRITING, tx_want := SSL_READING\<rparr>)"
  using want_tracking [of 4 replay_lib
      "(demo_stream (7, [(would_block\<lparr>io_error := SSL_ERROR_WANT_WRITE\<rparr>, 8)]))
        \<lparr>txbuf := Some 0, tx_want := SSL_READING\<rparr>"]
  by (simp add: demo_defs ssl_recv_def ssl_do_tx_attempt_def txbuf_data_def
        interpret_ssl_error_def ssl_error_defs want_defs errno_defs int_of_size_t_def)

text \<open>
  Claim C8. \<open>ssl_recv\<close> asserts \<open>n > 0\<close>: called with \<open>n = 0\<close> it stops in the assertion
  without calling the library, and for every \<open>n > 0\<close> it returns a value, so the assertion
  is not reached.
\<close>

theorem recv_requires_positive_count:
  "ssl_recv L sslv 0 = Inl Assertion_failed \<and>
   (0 < n \<longrightarrow> (\<exists>v. ssl_recv L sslv n = Inr v))"
  by (auto simp: ssl_recv_def Let_def split: prod.splits)

theorem recv_requires_positive_count_witness:
  "ssl_recv replay_lib (demo_stream (0, [(done_io 2 [104, 105], 0)])) 0 = Inl Assertion_failed \<and>
   ssl_recv replay_lib (demo_stream (0, [(done_io 2 [104, 105], 0)])) 16
     = Inr (2, [104, 105], demo_stream (0, []))"
  using recv_requires_positive_count
    [of replay_lib "demo_stream (0, [(done_io 2 [104, 105], 0)])" 16]
  by (simp add: demo_defs ssl_recv_def int_of_size_t_def want_defs)

section \<open>The outbound buffer\<close>

text \<open>
  \<open>ssl_do_tx\<close> allocates nothing and leaves the pointer \<open>txbuf\<close> as it is; the buffer it
  works on stays allocated.
\<close>

lemma ssl_do_tx_attempt_frame:
  assumes "ssl_do_tx_attempt L h sslv = (v, h', sslv')"
  shows "length h' = length h \<and> txbuf sslv' = txbuf sslv"
  using assms
  by (auto simp: ssl_do_tx_attempt_def Let_def ofpbuf_pull_def
           split: option.splits prod.splits if_splits)

lemma ssl_do_tx_frame:
  "ssl_do_tx L h sslv = (v, h', sslv') \<Longrightarrow> length h' = length h \<and> txbuf sslv' = txbuf sslv"
proof (induction L h sslv rule: ssl_do_tx.induct)
  case (1 L h sslv)
  obtain w h1 sslv1 where att: "ssl_do_tx_attempt L h sslv = (w, h1, sslv1)"
    by (cases "ssl_do_tx_attempt L h sslv") auto
  note fr = ssl_do_tx_attempt_frame [OF att]
  show ?case
  proof (cases w)
    case None
    with att "1.prems" have "ssl_do_tx L h1 sslv1 = (v, h', sslv')"
      by (simp add: ssl_do_tx.simps [of L h sslv])
    from "1.IH" [OF att [symmetric] None refl this] fr show ?thesis by simp
  next
    case (Some a)
    with att "1.prems" fr show ?thesis
      by (simp add: ssl_do_tx.simps [of L h sslv])
  qed
qed

lemma ssl_do_tx_attempt_keeps_cell:
  assumes "ssl_do_tx_attempt L h sslv = (v, h', sslv')" and "txbuf_data h sslv = Some d"
  shows "\<exists>d'. txbuf_data h' sslv' = Some d'"
  using assms
  by (auto simp: ssl_do_tx_attempt_def txbuf_data_def Let_def ofpbuf_pull_def
           split: option.splits prod.splits if_splits)

lemma ssl_do_tx_keeps_cell:
  "ssl_do_tx L h sslv = (v, h', sslv') \<Longrightarrow> txbuf_data h sslv = Some d \<Longrightarrow>
   \<exists>d'. txbuf_data h' sslv' = Some d'"
proof (induction L h sslv arbitrary: d rule: ssl_do_tx.induct)
  case (1 L h sslv)
  obtain w h1 sslv1 where att: "ssl_do_tx_attempt L h sslv = (w, h1, sslv1)"
    by (cases "ssl_do_tx_attempt L h sslv") auto
  from ssl_do_tx_attempt_keeps_cell [OF att "1.prems"(2)]
  obtain d1 where d1: "txbuf_data h1 sslv1 = Some d1" by blast
  show ?case
  proof (cases w)
    case None
    with att "1.prems" have "ssl_do_tx L h1 sslv1 = (v, h', sslv')"
      by (simp add: ssl_do_tx.simps [of L h sslv])
    from "1.IH" [OF att [symmetric] None refl this d1] show ?thesis .
  next
    case (Some a)
    with att "1.prems" d1 show ?thesis
      by (simp add: ssl_do_tx.simps [of L h sslv])
  qed
qed

lemma ssl_send_busy:
  "txbuf sslv \<noteq> None \<Longrightarrow> ssl_send L h sslv buffer = (Inr EAGAIN, h, sslv)"
  by (simp add: ssl_send_def)

lemma ssl_send_allocates_once:
  assumes "txbuf sslv = None" and "ssl_send L h sslv buffer = (v, h', sslv')"
  shows "length h' = length h + 1 \<and> (txbuf sslv' = None \<or> txbuf sslv' = Some (length h))"
proof -
  obtain e h1 sslv1 where tx:
    "ssl_do_tx L (h @ [Some buffer]) (sslv\<lparr>txbuf := Some (length h)\<rparr>) = (e, h1, sslv1)"
    by (cases "ssl_do_tx L (h @ [Some buffer]) (sslv\<lparr>txbuf := Some (length h)\<rparr>)") auto
  from ssl_do_tx_frame [OF tx]
  have fr: "length h1 = length h + 1" "txbuf sslv1 = Some (length h)" by simp_all
  from assms tx fr show ?thesis
    by (auto simp: ssl_send_def ofpbuf_clone_data_def ssl_clear_txbuf_def ofpbuf_delete_def
             split: sum.splits if_splits)
qed

lemma ssl_run_allocates_nothing:
  assumes "ssl_run L h sslv = (f, h', sslv')"
  shows "length h' = length h \<and> (txbuf sslv' = None \<or> txbuf sslv' = txbuf sslv)"
proof (cases "txbuf sslv")
  case None
  with assms show ?thesis by (simp add: ssl_run_def)
next
  case (Some p)
  obtain e h1 sslv1 where tx: "ssl_do_tx L h sslv = (e, h1, sslv1)"
    by (cases "ssl_do_tx L h sslv") auto
  from ssl_do_tx_frame [OF tx] assms tx Some show ?thesis
    by (auto simp: ssl_run_def ssl_clear_txbuf_def ofpbuf_delete_def
             split: sum.splits if_splits)
qed

lemma ssl_recv_keeps_txbuf:
  "ssl_recv L sslv n = Inr (ret, buf, sslv') \<Longrightarrow> txbuf sslv' = txbuf sslv"
  by (auto simp: ssl_recv_def Let_def split: if_splits prod.splits)

lemmas run_defs = ssl_send_def ofpbuf_clone_data_def ssl_do_tx.simps ssl_do_tx_attempt_def
     txbuf_data_def txbuf_size_def ssl_error_defs errno_defs int_of_size_t_def
     ofpbuf_pull_def ssl_clear_txbuf_def ofpbuf_delete_def interpret_ssl_error_def

text \<open>
  Claim C5. The stream has one slot for an outbound payload. \<open>ssl_send\<close> on a stream whose
  slot is taken returns \<^verbatim>\<open>EAGAIN\<close> and leaves the heap of buffers and the stream exactly as
  they were: nothing is copied. A payload is allocated only by \<open>ssl_send\<close> on an empty slot,
  one buffer per call, and that buffer is the only thing the slot can then point to;
  \<open>ssl_run\<close> allocates nothing and can only keep or empty the slot; \<open>ssl_recv\<close> does not touch
  it.
\<close>

theorem one_outbound_payload:
  "(txbuf sslv \<noteq> None \<longrightarrow> ssl_send L h sslv buffer = (Inr EAGAIN, h, sslv)) \<and>
   (txbuf sslv = None \<and> ssl_send L h sslv buffer = (v, h', sslv') \<longrightarrow>
      length h' = length h + 1 \<and> (txbuf sslv' = None \<or> txbuf sslv' = Some (length h))) \<and>
   (ssl_run L h sslv = (f, h'', sslv'') \<longrightarrow>
      length h'' = length h \<and> (txbuf sslv'' = None \<or> txbuf sslv'' = txbuf sslv)) \<and>
   (ssl_recv L sslv n = Inr (ret, buf, sslv3) \<longrightarrow> txbuf sslv3 = txbuf sslv)"
  using ssl_send_busy [of sslv L h buffer] ssl_send_allocates_once [of sslv L h buffer v h' sslv']
    ssl_run_allocates_nothing [of L h sslv f h'' sslv''] ssl_recv_keeps_txbuf [of L sslv n ret buf sslv3]
  by blast

text \<open>
  A stream with one byte buffered in cell 0: a send is refused and nothing changes, a
  run writes the byte and frees the cell, a recv leaves the slot alone. And a send on an
  empty slot that cannot write yet keeps its one new buffer.
\<close>

theorem one_outbound_payload_witness:
  "ssl_send replay_lib [Some [72]] ((demo_stream (0, [(done_io 1 [], 0)]))\<lparr>txbuf := Some 0\<rparr>) [73]
     = (Inr EAGAIN, [Some [72]], (demo_stream (0, [(done_io 1 [], 0)]))\<lparr>txbuf := Some 0\<rparr>) \<and>
   ssl_run replay_lib [Some [72]] ((demo_stream (0, [(done_io 1 [], 0)]))\<lparr>txbuf := Some 0\<rparr>)
     = (None, [None], demo_stream (0, [])) \<and>
   ssl_recv replay_lib ((demo_stream (0, [(done_io 1 [], 0)]))\<lparr>txbuf := Some 0\<rparr>) 4
     = Inr (1, [], (demo_stream (0, []))\<lparr>txbuf := Some 0\<rparr>) \<and>
   ssl_send replay_lib [] (demo_stream (0, [(would_block, 0)])) [73]
     = (Inr 0, [Some [73]], (demo_stream (0, []))\<lparr>txbuf := Some 0, tx_want := SSL_READING\<rparr>)"
proof -
  have taken: "txbuf ((demo_stream (0, [(done_io 1 [], 0)]))\<lparr>txbuf := Some 0\<rparr>) \<noteq> None"
    by simp
  have run: "ssl_run replay_lib [Some [72]] ((demo_stream (0, [(done_io 1 [], 0)]))\<lparr>txbuf := Some 0\<rparr>)
     = (None, [None], demo_stream (0, []))"
    by (simp add: ssl_run_def demo_defs run_defs)
  have recv: "ssl_recv replay_lib ((demo_stream (0, [(done_io 1 [], 0)]))\<lparr>txbuf := Some 0\<rparr>) 4
     = Inr (1, [], (demo_stream (0, []))\<lparr>txbuf := Some 0\<rparr>)"
    by (simp add: ssl_recv_def demo_defs int_of_size_t_def)
  have send: "ssl_send replay_lib [] (demo_stream (0, [(would_block, 0)])) [73]
     = (Inr 0, [Some [73]], (demo_stream (0, []))\<lparr>txbuf := Some 0, tx_want := SSL_READING\<rparr>)"
    by (simp add: demo_defs run_defs)
  from one_outbound_payload
         [of "(demo_stream (0, [(done_io 1 [], 0)]))\<lparr>txbuf := Some 0\<rparr>" replay_lib
             "[Some [72]]" "[73]"]
       taken run recv send
  show ?thesis by simp
qed

text \<open>
  Claim C6, the failing input. A two-byte send on an empty slot whose first \<^verbatim>\<open>SSL_write\<close>
  reports a clean close returns \<^verbatim>\<open>EPIPE\<close> with the slot emptied, but cell 0 of the heap
  still holds the cloned bytes: the \<^verbatim>\<open>default\<close> case of \<open>ssl_send\<close> stores a null pointer
  in \<open>txbuf\<close> without \<^verbatim>\<open>ofpbuf_delete\<close>. The same send fully written goes through
  \<open>ssl_clear_txbuf\<close> and leaves cell 0 freed.
\<close>

theorem ssl_send_error_leaves_buffer_allocated:
  "ssl_send replay_lib [] (demo_stream (0, [(closed_by_peer, 0)])) [72, 73]
     = (Inr EPIPE, [Some [72, 73]], demo_stream (0, [])) \<and>
   ssl_send replay_lib [] (demo_stream (0, [(done_io 2 [], 0)])) [72, 73]
     = (Inr 0, [None], demo_stream (0, []))"
  by (simp add: demo_defs run_defs)

text \<open>
  The same for every library and every error: whenever \<open>ssl_send\<close> on an empty slot returns
  a nonzero value, the buffer it cloned is still allocated and no longer referenced.
\<close>

lemma ssl_send_error_leak:
  assumes "txbuf sslv = None" and "ssl_send L h sslv buffer = (Inr e, h', sslv')" and "e \<noteq> 0"
  shows "txbuf sslv' = None \<and> (\<exists>d. h' ! length h = Some d)"
proof -
  obtain v h1 sslv1 where tx:
    "ssl_do_tx L (h @ [Some buffer]) (sslv\<lparr>txbuf := Some (length h)\<rparr>) = (v, h1, sslv1)"
    by (cases "ssl_do_tx L (h @ [Some buffer]) (sslv\<lparr>txbuf := Some (length h)\<rparr>)") auto
  have "txbuf_data (h @ [Some buffer]) (sslv\<lparr>txbuf := Some (length h)\<rparr>) = Some buffer"
    by (simp add: txbuf_data_def)
  from ssl_do_tx_keeps_cell [OF tx this] obtain d where d: "txbuf_data h1 sslv1 = Some d" by blast
  from ssl_do_tx_frame [OF tx] have fr: "txbuf sslv1 = Some (length h)" by simp
  from d fr have cell: "h1 ! length h = Some d"
    by (auto simp: txbuf_data_def split: if_splits)
  from assms tx cell show ?thesis
    by (auto simp: ssl_send_def ofpbuf_clone_data_def ssl_clear_txbuf_def
             split: sum.splits if_splits)
qed

section \<open>The handshake and the CA bootstrap\<close>

text \<open>
  Under POSIX error numbers the bootstrap never returns 0, and so \<open>ssl_connect\<close> never
  returns 0 while the bootstrap is armed.
\<close>

lemma do_ca_cert_bootstrap_nonzero:
  assumes "posix_errnos os"
  shows "fst (do_ca_cert_bootstrap L os g sslv) \<noteq> Inr 0"
proof -
  have a: "\<And>p e. os_open_excl os p = Inl e \<Longrightarrow> e \<noteq> 0"
    and b: "\<And>d e. os_fdopen os d = Some e \<Longrightarrow> e \<noteq> 0"
    and c: "\<And>d e. os_fclose os d = Some e \<Longrightarrow> e \<noteq> 0"
    using assms unfolding posix_errnos_def by fastforce+
  show ?thesis
    by (auto simp: do_ca_cert_bootstrap_def Let_def EPROTO_def EIO_def
             split: option.splits sum.splits dest: a b c)
qed

lemma ssl_connect_armed:
  assumes "posix_errnos os" and "bootstrap_ca_cert g"
  shows "fst (ssl_connect L os g sslv) \<noteq> Inr 0"
  using assms(2) do_ca_cert_bootstrap_nonzero [OF assms(1), of L g]
  apply (auto simp: ssl_connect_def Let_def EPROTO_def EAGAIN_def split: prod.splits ssl_state.splits if_splits)
  apply (metis fst_conv)+
  done

lemma posix_errnos_demo_os: "posix_errnos demo_os"
  by (simp add: posix_errnos_def demo_os_def)

lemma demo_bootstrap_run:
  "do_ca_cert_bootstrap replay_lib demo_os armed_globals (demo_stream (0, []))
     = (Inr EPROTO, bootstrapped_globals,
        [Created (Some ''new-ca.pem''), Wrote_PEM (Some ''new-ca.pem'') ''root''])"
  by (simp add: demo_defs armed_globals_def bootstrapped_globals_def fresh_ctx_def
        do_ca_cert_bootstrap_def add_client_CAs_def Let_def)

text \<open>
  Claim C2. When \<open>ssl_connect\<close> returns 0 (the stream layer then takes the connection as
  established) the handshake has returned 1 and the session's verification mode, which
  \<open>ssl_connect\<close> does not change, satisfies the test of the code:
  \<^verbatim>\<open>(mode & (SSL_VERIFY_NONE | SSL_VERIFY_PEER)) == SSL_VERIFY_PEER\<close>. And when the handshake
  completes with the bootstrap no longer armed on a session whose mode fails that test,
  \<open>ssl_connect\<close> returns \<^verbatim>\<open>EPROTO\<close>. The operating system is assumed to report positive
  error numbers.
\<close>

theorem established_only_when_verified:
  assumes "posix_errnos os"
  shows "(ssl_connect L os g sslv = (Inr 0, g', sslv', eff) \<longrightarrow>
            verify_mode (ssl sslv') AND (SSL_VERIFY_NONE OR SSL_VERIFY_PEER) = SSL_VERIFY_PEER \<and>
            verify_mode (ssl sslv') = verify_mode (ssl sslv) \<and>
            state sslv' = STATE_SSL_CONNECTING \<and>
            io_ret (fst (handshake L sslv)) = 1) \<and>
         ((state sslv = STATE_TCP_CONNECTING \<longrightarrow> check_connection_completion os (fd sslv) = 0) \<and>
          io_ret (fst (handshake L sslv)) = 1 \<and> \<not> bootstrap_ca_cert g \<and>
          verify_mode (ssl sslv) AND (SSL_VERIFY_NONE OR SSL_VERIFY_PEER) \<noteq> SSL_VERIFY_PEER \<longrightarrow>
            ssl_connect L os g sslv
              = (Inr EPROTO, g,
                 sslv\<lparr>state := STATE_SSL_CONNECTING,
                      ssl := (ssl sslv)\<lparr>session := snd (handshake L sslv)\<rparr>\<rparr>, []))"
proof -
  have hs: "handshake L (sslv\<lparr>state := STATE_SSL_CONNECTING\<rparr>) = handshake L sslv"
    by (simp add: handshake_def)
  have one: "ssl_connect L os g sslv = (Inr 0, g', sslv', eff) \<Longrightarrow>
            verify_mode (ssl sslv') AND (SSL_VERIFY_NONE OR SSL_VERIFY_PEER) = SSL_VERIFY_PEER \<and>
            verify_mode (ssl sslv') = verify_mode (ssl sslv) \<and>
            state sslv' = STATE_SSL_CONNECTING \<and>
            io_ret (fst (handshake L sslv)) = 1"
  proof (cases "bootstrap_ca_cert g")
    case True
    assume "ssl_connect L os g sslv = (Inr 0, g', sslv', eff)"
    with ssl_connect_armed [OF assms True, of L sslv] show ?thesis by simp
  next
    case False
    assume "ssl_connect L os g sslv = (Inr 0, g', sslv', eff)"
    with False show ?thesis
      by (auto simp: ssl_connect_def Let_def hs EPROTO_def EAGAIN_def
               split: prod.splits if_splits)
  qed
  have two: "(state sslv = STATE_TCP_CONNECTING \<longrightarrow> check_connection_completion os (fd sslv) = 0) \<Longrightarrow>
          io_ret (fst (handshake L sslv)) = 1 \<Longrightarrow> \<not> bootstrap_ca_cert g \<Longrightarrow>
          verify_mode (ssl sslv) AND (SSL_VERIFY_NONE OR SSL_VERIFY_PEER) \<noteq> SSL_VERIFY_PEER \<Longrightarrow>
            ssl_connect L os g sslv
              = (Inr EPROTO, g,
                 sslv\<lparr>state := STATE_SSL_CONNECTING,
                      ssl := (ssl sslv)\<lparr>session := snd (handshake L sslv)\<rparr>\<rparr>, [])"
    by (cases "state sslv") (auto simp: ssl_connect_def Let_def hs split: prod.splits)
  from one two show ?thesis by blast
qed

theorem established_only_when_verified_witness:
  "posix_errnos demo_os \<and>
   ssl_connect replay_lib demo_os initial_globals relaxed_stream
     = (Inr EPROTO, initial_globals,
        relaxed_stream\<lparr>ssl := \<lparr>verify_mode = SSL_VERIFY_NONE, session = (3, [])\<rparr>\<rparr>, []) \<and>
   ssl_connect replay_lib demo_os initial_globals (demo_stream (0, [(done_io 1 [], 3)]))
     = (Inr 0, initial_globals, demo_stream (3, []), [])"
proof -
  have rejected: "ssl_connect replay_lib demo_os initial_globals relaxed_stream
     = (Inr EPROTO, initial_globals,
        relaxed_stream\<lparr>ssl := \<lparr>verify_mode = SSL_VERIFY_NONE, session = (3, [])\<rparr>\<rparr>, [])"
    using established_only_when_verified
      [OF posix_errnos_demo_os, of replay_lib initial_globals relaxed_stream]
    by (simp add: demo_defs relaxed_stream_def initial_globals_def handshake_def verify_defs)
  have accepted: "ssl_connect replay_lib demo_os initial_globals (demo_stream (0, [(done_io 1 [], 3)]))
     = (Inr 0, initial_globals, demo_stream (3, []), [])"
    by (simp add: demo_defs initial_globals_def ssl_connect_def handshake_def verify_defs)
  from posix_errnos_demo_os rejected accepted show ?thesis by simp
qed

text \<open>
  Claim C3. \<open>do_ca_cert_bootstrap\<close> never returns 0: every path returns \<^verbatim>\<open>EPROTO\<close>,
  \<^verbatim>\<open>EIO\<close> or the error number of a failed call (or stops in \<^verbatim>\<open>out_of_memory()\<close>). When the
  chain is there, its last certificate is self-signed, the file is created, written and
  closed and the certificate duplicated, it returns \<^verbatim>\<open>EPROTO\<close> whatever
  \<^verbatim>\<open>SSL_CTX_load_verify_locations\<close> answers. So with the bootstrap armed \<open>ssl_connect\<close> never
  returns 0.
\<close>

theorem bootstrap_never_establishes:
  assumes "posix_errnos os"
  shows "fst (do_ca_cert_bootstrap L os g sslv) \<noteq> Inr 0 \<and>
         (SSL_get_peer_cert_chain L (session (ssl sslv)) = Some chain \<and> chain \<noteq> [] \<and>
          X509_check_issued L (last chain) (last chain) = 0 \<and>
          os_open_excl os (ca_cert_file g) = Inr d \<and> os_fdopen os d = None \<and>
          PEM_write_X509_ok L (last chain) \<and> os_fclose os d = None \<and>
          X509_dup_ok L (last chain) \<longrightarrow>
            fst (do_ca_cert_bootstrap L os g sslv) = Inr EPROTO) \<and>
         (bootstrap_ca_cert g \<longrightarrow> fst (ssl_connect L os g sslv) \<noteq> Inr 0)"
proof -
  have "SSL_get_peer_cert_chain L (session (ssl sslv)) = Some chain \<Longrightarrow> chain \<noteq> [] \<Longrightarrow>
          X509_check_issued L (last chain) (last chain) = 0 \<Longrightarrow>
          os_open_excl os (ca_cert_file g) = Inr d \<Longrightarrow> os_fdopen os d = None \<Longrightarrow>
          PEM_write_X509_ok L (last chain) \<Longrightarrow> os_fclose os d = None \<Longrightarrow>
          X509_dup_ok L (last chain) \<Longrightarrow>
            fst (do_ca_cert_bootstrap L os g sslv) = Inr EPROTO"
    by (simp add: do_ca_cert_bootstrap_def Let_def last_conv_nth split: option.splits)
  with do_ca_cert_bootstrap_nonzero [OF assms, of L g sslv] ssl_connect_armed [OF assms, of g L sslv]
  show ?thesis by blast
qed

theorem bootstrap_never_establishes_witness:
  "posix_errnos demo_os \<and>
   do_ca_cert_bootstrap replay_lib demo_os armed_globals (demo_stream (0, []))
     = (Inr EPROTO, bootstrapped_globals,
        [Created (Some ''new-ca.pem''), Wrote_PEM (Some ''new-ca.pem'') ''root'']) \<and>
   fst (ssl_connect replay_lib demo_os armed_globals (demo_stream (0, [(done_io 1 [], 3)])))
     = Inr EPROTO"
proof -
  have conn: "fst (ssl_connect replay_lib demo_os armed_globals (demo_stream (0, [(done_io 1 [], 3)])))
     = Inr EPROTO"
    by (simp add: demo_defs armed_globals_def ssl_connect_def handshake_def
          do_ca_cert_bootstrap_def Let_def)
  from bootstrap_never_establishes
         [OF posix_errnos_demo_os, of replay_lib armed_globals "demo_stream (0, [])"]
       posix_errnos_demo_os demo_bootstrap_run conn
  show ?thesis by simp
qed

section \<open>Reading certificate files\<close>

text \<open>
  The loop computes what the contract describes, and a parser that consumes input gives
  every file a parse, so the loop ends.
\<close>

lemma read_cert_loop_parses:
  assumes "file_parses pem file cs ok"
  shows "read_cert_loop pem file acc =
           Some (if ok
                 then \<lparr>rc_retval = 0, rc_certs = Some (acc @ cs),
                       rc_n_certs = length (acc @ cs), rc_freed = []\<rparr>
                 else \<lparr>rc_retval = EIO, rc_certs = None, rc_n_certs = 0,
                       rc_freed = acc @ cs\<rparr>)"
  using assms
proof (induction arbitrary: acc rule: file_parses.induct)
  case (parse_error pem f)
  then show ?case by (subst read_cert_loop.simps) simp
next
  case (last_cert pem f c rest)
  then show ?case
    by (subst read_cert_loop.simps) (simp add: Let_def del: dropWhile_eq_Nil_conv)
next
  case (next_cert pem f c rest cs ok)
  have "read_cert_loop pem f acc = read_cert_loop pem (dropWhile isspace rest) (acc @ [c])"
    using next_cert.hyps(1,2)
    by (subst read_cert_loop.simps) (simp add: Let_def del: dropWhile_eq_Nil_conv)
  with next_cert.IH [of "acc @ [c]"] show ?case by simp
qed

lemma file_parses_total:
  assumes "pem_consumes pem"
  shows "\<exists>cs ok. file_parses pem file cs ok"
proof (induction "file" rule: length_induct)
  case (1 f)
  show ?case
  proof (cases "pem f")
    case None
    then show ?thesis by (blast intro: file_parses.parse_error)
  next
    case (Some a)
    obtain c rest where a: "a = (c, rest)" by (cases a)
    with Some assms have shorter: "length rest < length f"
      by (simp add: pem_consumes_def)
    show ?thesis
    proof (cases "dropWhile isspace rest = []")
      case True
      with Some a show ?thesis by (blast intro: file_parses.last_cert)
    next
      case False
      have "length (dropWhile isspace rest) \<le> length rest" by (rule length_dropWhile_le)
      with shorter have "length (dropWhile isspace rest) < length f" by simp
      with 1 obtain cs ok where "file_parses pem (dropWhile isspace rest) cs ok" by blast
      with Some a False show ?thesis by (blast intro: file_parses.next_cert)
    qed
  qed
qed

lemma word_pem_consumes: "pem_consumes word_pem"
  unfolding pem_consumes_def word_pem_def
  by (auto split: list.splits if_splits simp: less_Suc_eq_le length_dropWhile_le)

lemma cacert_parses: "file_parses word_pem ''root1 root2'' [''root1'', ''root2''] True"
  apply (rule file_parses.next_cert [where rest = "'' root2''"])
    apply (simp add: word_pem_def isspace_def)
   apply (simp add: isspace_def)
  apply (simp add: isspace_def)
  apply (rule file_parses.last_cert [where rest = "[]"])
   apply (simp add: word_pem_def isspace_def)
  apply simp
  done

lemma broken_parses: "file_parses word_pem ''root1 #'' [''root1''] False"
  apply (rule file_parses.next_cert [where rest = "'' #''"])
    apply (simp add: word_pem_def isspace_def)
   apply (simp add: isspace_def)
  apply (simp add: isspace_def)
  apply (rule file_parses.parse_error)
  apply (simp add: word_pem_def)
  done




text \<open>
  Claim C7. With a parser that consumes what it parses, \<open>read_cert_file\<close> returns for
  every file. If the file cannot be opened it returns the error number with a null array
  and count 0. Otherwise the file parses in exactly one way: if a parse fails after the
  certificates \<open>cs\<close>, then all of \<open>cs\<close> are freed, the array is null, the count is 0
  and \<^verbatim>\<open>EIO\<close> is returned; if the end of the file is reached, 0 is returned with the
  array \<open>cs\<close> in file order and its length.
\<close>

theorem read_cert_file_atomic:
  assumes "pem_consumes (PEM_read_X509 L)"
  shows "(os_fopen_r os file_name = Inl e \<longrightarrow>
            read_cert_file L os file_name
              = Some \<lparr>rc_retval = e, rc_certs = None, rc_n_certs = 0, rc_freed = []\<rparr>) \<and>
         (os_fopen_r os file_name = Inr file \<longrightarrow>
            (\<exists>cs ok. file_parses (PEM_read_X509 L) file cs ok) \<and>
            (\<forall>cs ok. file_parses (PEM_read_X509 L) file cs ok \<longrightarrow>
               read_cert_file L os file_name
                 = Some (if ok
                         then \<lparr>rc_retval = 0, rc_certs = Some cs, rc_n_certs = length cs,
                               rc_freed = []\<rparr>
                         else \<lparr>rc_retval = EIO, rc_certs = None, rc_n_certs = 0,
                               rc_freed = cs\<rparr>)))"
  using file_parses_total [OF assms, of "file"] read_cert_loop_parses [of "PEM_read_X509 L" "file" _ _ "[]"]
  by (auto simp: read_cert_file_def)

theorem read_cert_file_atomic_witness:
  "pem_consumes (PEM_read_X509 replay_lib) \<and>
   read_cert_file replay_lib demo_os ''cacert.pem''
     = Some \<lparr>rc_retval = 0, rc_certs = Some [''root1'', ''root2''], rc_n_certs = 2, rc_freed = []\<rparr> \<and>
   read_cert_file replay_lib demo_os ''broken.pem''
     = Some \<lparr>rc_retval = EIO, rc_certs = None, rc_n_certs = 0, rc_freed = [''root1'']\<rparr> \<and>
   read_cert_file replay_lib demo_os ''absent.pem''
     = Some \<lparr>rc_retval = ENOENT, rc_certs = None, rc_n_certs = 0, rc_freed = []\<rparr>"
proof -
  have pem: "PEM_read_X509 replay_lib = word_pem" by (simp add: replay_lib_def)
  have c: "pem_consumes (PEM_read_X509 replay_lib)" by (simp add: pem word_pem_consumes)
  have f1: "os_fopen_r demo_os ''cacert.pem'' = Inr ''root1 root2''" by (simp add: demo_os_def)
  have f2: "os_fopen_r demo_os ''broken.pem'' = Inr ''root1 #''" by (simp add: demo_os_def)
  have f3: "os_fopen_r demo_os ''absent.pem'' = Inl ENOENT" by (simp add: demo_os_def)
  from read_cert_file_atomic [OF c, of demo_os "''cacert.pem''" _ "''root1 root2''"]
    f1 cacert_parses pem
  have r1: "read_cert_file replay_lib demo_os ''cacert.pem''
     = Some \<lparr>rc_retval = 0, rc_certs = Some [''root1'', ''root2''], rc_n_certs = 2, rc_freed = []\<rparr>"
    by fastforce
  from read_cert_file_atomic [OF c, of demo_os "''broken.pem''" _ "''root1 #''"]
    f2 broken_parses pem
  have r2: "read_cert_file replay_lib demo_os ''broken.pem''
     = Some \<lparr>rc_retval = EIO, rc_certs = None, rc_n_certs = 0, rc_freed = [''root1'']\<rparr>"
    by fastforce
  from read_cert_file_atomic [OF c, of demo_os "''absent.pem''" ENOENT] f3
  have r3: "read_cert_file replay_lib demo_os ''absent.pem''
     = Some \<lparr>rc_retval = ENOENT, rc_certs = None, rc_n_certs = 0, rc_freed = []\<rparr>"
    by simp
  from c r1 r2 r3 show ?thesis by simp
qed

section \<open>The configuration flags\<close>





lemmas setter_defs = stream_ssl_set_ca_cert_file_def ssl_init_def do_ssl_init_def
  initial_globals_def Let_def add_client_CAs_def ca_file_globals_def fresh_ctx_def




lemma needful_configuration_zero:
  "needful_configuration L g = 0 \<longleftrightarrow>
     has_private_key g \<and> has_certificate g \<and> (has_ca_cert g \<or> bootstrap_ca_cert g) \<and>
     SSL_CTX_check_private_key L"
  by (auto simp: needful_configuration_def Let_def ENOPROTOOPT_def)

lemma new_ssl_stream_refuses:
  assumes "needful_configuration L g \<noteq> 0"
  shows "new_ssl_stream L os g name0 fd0 type0 state0 remote = (ENOPROTOOPT, None, [Closed fd0])"
proof -
  have "needful_configuration L g = 0 \<or> needful_configuration L g = ENOPROTOOPT"
    by (simp add: needful_configuration_def Let_def)
  with assms have "needful_configuration L g = ENOPROTOOPT" by simp
  then show ?thesis by (simp add: new_ssl_stream_def Let_def ENOPROTOOPT_def)
qed

lemma bootstrap_only_setter:
  assumes "TLSv1_method_ok L" and "SSL_CTX_new_ok L" and "os_stat os file_name = Some ENOENT"
  shows "\<exists>g'. stream_ssl_set_ca_cert_file L os initial_globals file_name True = Some (Inr g') \<and>
           bootstrap_ca_cert g' \<and> ca_cert_file g' = Some file_name \<and>
           \<not> stream_ssl_is_configured g'"
  using assms
  by (simp add: stream_ssl_set_ca_cert_file_def ssl_init_def do_ssl_init_def initial_globals_def
        Let_def stream_ssl_is_configured_def)

lemma new_ssl_stream_bootstrap_suffices:
  assumes "has_private_key g" "has_certificate g" "SSL_CTX_check_private_key L"
    "bootstrap_ca_cert g" "ctx g = Some c" "SSL_new_session L = Some s" "SSL_set_fd_ok L fd0"
    "os_setsockopt_nodelay os fd0 = None"
  shows "\<exists>sslv. new_ssl_stream L os g name0 fd0 type0 state0 remote = (0, Some sslv, []) \<and>
           txbuf sslv = None \<and> rx_want sslv = SSL_NOTHING \<and> tx_want sslv = SSL_NOTHING \<and>
           verify_mode (ssl sslv) = (if type0 = CLIENT then SSL_VERIFY_NONE else ctx_verify_mode c)"
  using assms needful_configuration_zero [of L g]
  by (simp add: new_ssl_stream_def Let_def)

text \<open>
  Claim C10. \<open>stream_ssl_is_configured\<close> is the disjunction of \<open>has_private_key\<close>,
  \<open>has_certificate\<close> and \<open>has_ca_cert\<close>. After the CA setter has armed the bootstrap on
  the initial configuration (a file that does not exist, \<open>bootstrap\<close> true) it is false.
  The configuration test of \<open>new_ssl_stream\<close> passes exactly when key and certificate are
  there, the key matches and \<open>has_ca_cert\<close> or \<open>bootstrap_ca_cert\<close> holds, and
  \<open>new_ssl_stream\<close> refuses with \<^verbatim>\<open>ENOPROTOOPT\<close>, closing the descriptor, whenever the test
  does not pass; with key and certificate and only the bootstrap armed, \<open>new_ssl_stream\<close>
  makes a stream.
\<close>

theorem is_configured_ignores_bootstrap:
  "(stream_ssl_is_configured g \<longleftrightarrow> has_private_key g \<or> has_certificate g \<or> has_ca_cert g) \<and>
   (TLSv1_method_ok L \<and> SSL_CTX_new_ok L \<and> os_stat os file_name = Some ENOENT \<longrightarrow>
      (\<exists>g'. stream_ssl_set_ca_cert_file L os initial_globals file_name True = Some (Inr g') \<and>
            bootstrap_ca_cert g' \<and> ca_cert_file g' = Some file_name \<and>
            \<not> stream_ssl_is_configured g')) \<and>
   (needful_configuration L g = 0 \<longleftrightarrow>
      has_private_key g \<and> has_certificate g \<and> (has_ca_cert g \<or> bootstrap_ca_cert g) \<and>
      SSL_CTX_check_private_key L) \<and>
   (needful_configuration L g \<noteq> 0 \<longrightarrow>
      new_ssl_stream L os g name0 fd0 type0 state0 remote = (ENOPROTOOPT, None, [Closed fd0])) \<and>
   (has_private_key g \<and> has_certificate g \<and> SSL_CTX_check_private_key L \<and>
    bootstrap_ca_cert g \<and> ctx g = Some c \<and> SSL_new_session L = Some s \<and> SSL_set_fd_ok L fd0 \<and>
    os_setsockopt_nodelay os fd0 = None \<longrightarrow>
      (\<exists>sslv. new_ssl_stream L os g name0 fd0 type0 state0 remote = (0, Some sslv, [])))"
  using bootstrap_only_setter [of L os file_name] needful_configuration_zero [of L g]
    new_ssl_stream_refuses [of L g os name0 fd0 type0 state0 remote]
    new_ssl_stream_bootstrap_suffices [of g L c s fd0 os name0 type0 state0 remote]
  by (simp add: stream_ssl_is_configured_def) blast

text \<open>
  The setter arms the bootstrap and the probe stays false; with key and certificate added
  \<open>new_ssl_stream\<close> makes a client stream; with key and certificate but neither CA flag it
  refuses.
\<close>

theorem is_configured_ignores_bootstrap_witness:
  "stream_ssl_set_ca_cert_file replay_lib demo_os initial_globals ''new-ca.pem'' True
     = Some (Inr armed_globals) \<and>
   \<not> stream_ssl_is_configured armed_globals \<and>
   fst (new_ssl_stream replay_lib demo_os
          (armed_globals\<lparr>has_private_key := True, has_certificate := True\<rparr>)
          ''ssl:127.0.0.1'' 3 CLIENT STATE_SSL_CONNECTING zero_sockaddr) = 0 \<and>
   new_ssl_stream replay_lib demo_os
     (armed_globals\<lparr>has_private_key := True, has_certificate := True,
                     bootstrap_ca_cert := False\<rparr>)
     ''ssl:127.0.0.1'' 3 CLIENT STATE_SSL_CONNECTING zero_sockaddr
     = (ENOPROTOOPT, None, [Closed 3])"
proof -
  have lib: "TLSv1_method_ok replay_lib" "SSL_CTX_new_ok replay_lib"
    "SSL_CTX_check_private_key replay_lib" "SSL_new_session replay_lib = Some (0, [])"
    "SSL_set_fd_ok replay_lib 3"
    by (simp_all add: replay_lib_def)
  have os: "os_stat demo_os ''new-ca.pem'' = Some ENOENT" "os_setsockopt_nodelay demo_os 3 = None"
    by (simp_all add: demo_os_def)
  have s1: "stream_ssl_set_ca_cert_file replay_lib demo_os initial_globals ''new-ca.pem'' True
     = Some (Inr armed_globals)"
    by (simp add: setter_defs armed_globals_def lib os)
  have armed: "bootstrap_ca_cert armed_globals" "\<not> has_ca_cert armed_globals"
    "\<not> has_private_key armed_globals" "\<not> has_certificate armed_globals"
    "ctx armed_globals = Some fresh_ctx"
    by (simp_all add: armed_globals_def)
  from is_configured_ignores_bootstrap
         [of "armed_globals\<lparr>has_private_key := True, has_certificate := True\<rparr>" replay_lib
             demo_os "''new-ca.pem''" "''ssl:127.0.0.1''" 3 CLIENT STATE_SSL_CONNECTING
             zero_sockaddr fresh_ctx "(0, [])"]
       is_configured_ignores_bootstrap
         [of "armed_globals\<lparr>has_private_key := True, has_certificate := True,
                            bootstrap_ca_cert := False\<rparr>" replay_lib
             demo_os "''new-ca.pem''" "''ssl:127.0.0.1''" 3 CLIENT STATE_SSL_CONNECTING
             zero_sockaddr]
       is_configured_ignores_bootstrap [of armed_globals]
       lib os s1 armed
  show ?thesis by auto
qed

section \<open>The name of the listener\<close>

text \<open>
  The name \<open>pssl_open\<close> gives the listener is printed from \<open>sin\<close> alone.
\<close>

lemma pssl_open_name:
  assumes "pssl_open L os g suffix sin = Inr (0, g', Some p)"
  shows "pstream_name p
           = ''pssl:'' @ decimal (ntohs (sin_port sin)) @ '':'' @ ip_fmt (sin_addr sin)"
  using assms
  by (auto simp: pssl_open_def Let_def split: sum.splits if_splits)

text \<open>
  Claim C9, the failing input. The listening socket is bound to 127.0.0.1 port 6633 and
  the stack held zeros where \<open>sin\<close> lies: the listener is named \<open>pssl:0:0.0.0.0\<close>, not
  \<open>pssl:6633:127.0.0.1\<close>.
\<close>

theorem pssl_open_reports_stack_contents:
  "pssl_open replay_lib demo_os initial_globals ''6633'' zero_sockaddr
     = Inr (0, initial_globals\<lparr>init_status := 0, ctx := Some fresh_ctx\<rparr>,
            Some \<lparr>pstream_name = ''pssl:0:0.0.0.0'', pssl_fd = 5\<rparr>) \<and>
   os_bound demo_os 5 = Some \<lparr>sin_port = (25, 233), sin_addr = (127, 0, 0, 1)\<rparr> \<and>
   ''pssl:'' @ decimal (ntohs (25, 233)) @ '':'' @ ip_fmt (127, 0, 0, 1) = ''pssl:6633:127.0.0.1''"
  by (simp add: pssl_open_def ssl_init_def do_ssl_init_def initial_globals_def demo_defs
        zero_sockaddr_def fresh_ctx_def ntohs_def ip_fmt_def decimal.simps Let_def OFP_SSL_PORT_def)

end
